theory Spec2Isabelle
  imports Main
begin

section \<open>The Person Directory Service (server.go)\<close>

text \<open>
  The service is a set of HTTP handlers over one table, \<^verbatim>\<open>individuos\<close>. Each handler
  of server.go is embedded as a function that takes the database handle, the request, the
  response writer and the state of the storage, and returns the writer and the storage
  as the handler leaves them. Go strings are byte sequences, and so are the strings of
  this theory: a character outside ASCII is written as its UTF-8 bytes. Go's \<^verbatim>\<open>int\<close> is
  taken to be 64 bits wide, so that \<^verbatim>\<open>int(id)\<close> keeps the value of the
  \<^verbatim>\<open>int64\<close> that \<^verbatim>\<open>LastInsertId\<close> returns, and the range check of
  \<^verbatim>\<open>strconv.Atoi\<close> is that of 64 bits.
\<close>

subsection \<open>Data model\<close>

text \<open>\<^verbatim>\<open>type Pessoa struct { ID int `json:"id"`; Nome string `json:"nome"` }\<close>\<close>

record Pessoa =
  ID :: int
  Nome :: string

text \<open>
  The value that \<^verbatim>\<open>json.NewEncoder(w).Encode\<close> writes, as a syntax tree. The encoder
  writes the fields of a struct in the order of their declaration, under the names of
  their tags, and a slice as an array, except that a nil slice is written as \<^verbatim>\<open>null\<close>.
  A string stands for itself when it is in UTF-8, as the names are that the JSON decoder
  yields and that the handlers store; in any other string the encoder replaces the bytes
  that are not UTF-8, which the tree does not show.
\<close>

datatype json =
    JNull
  | JNumber int
  | JString string
  | JArray "json list"
  | JObject "(string \<times> json) list"

definition Marshal_Pessoa :: "Pessoa \<Rightarrow> json" where
  "Marshal_Pessoa p = JObject [(''id'', JNumber (ID p)), (''nome'', JString (Nome p))]"

text \<open>
  A slice of \<^verbatim>\<open>Pessoa\<close>: \<open>None\<close> is the nil slice that \<^verbatim>\<open>var listaPessoas []Pessoa\<close>
  declares, \<open>Some ps\<close> a slice with the elements \<open>ps\<close>. \<^verbatim>\<open>append\<close> to a nil slice
  allocates.
\<close>

type_synonym slice = "Pessoa list option"

definition append_slice :: "slice \<Rightarrow> Pessoa \<Rightarrow> slice" where
  "append_slice l p = (case l of None \<Rightarrow> Some [p] | Some ps \<Rightarrow> Some (ps @ [p]))"

definition Marshal_slice :: "slice \<Rightarrow> json" where
  "Marshal_slice l = (case l of None \<Rightarrow> JNull | Some ps \<Rightarrow> JArray (map Marshal_Pessoa ps))"

subsection \<open>Requests and the response writer\<close>

text \<open>
  What a handler reads of a request: the value of \<^verbatim>\<open>r.Header.Get("Content-Type")\<close>
  (empty when the header is absent), the path variables \<^verbatim>\<open>mux.Vars(r)\<close>, and the
  outcome of \<^verbatim>\<open>json.NewDecoder(r.Body).Decode(&p)\<close> on a zero-valued \<^verbatim>\<open>Pessoa\<close>:
  \<open>Inl\<close> the text of the error, or \<open>Inr\<close> the struct as the decoder leaves it (a field
  the body does not mention keeps its zero value).
\<close>

record Request =
  Header_Content_Type :: string
  Vars :: "string \<rightharpoonup> string"
  Body_Decode :: "string + Pessoa"

text \<open>Indexing a Go map with a key it does not hold gives the zero value.\<close>

definition index_map :: "(string \<rightharpoonup> string) \<Rightarrow> string \<Rightarrow> string" where
  "index_map params k = (case params k of None \<Rightarrow> [] | Some v \<Rightarrow> v)"

datatype chunk = Text string | JsonLine json

text \<open>
  The \<^verbatim>\<open>http.ResponseWriter\<close>: the Content-Type header, the status code once
  \<^verbatim>\<open>WriteHeader\<close> has been called (by the handler, or by the first write, with 200),
  and what has been written to the body.
\<close>

record ResponseWriter =
  Content_Type :: "string option"
  wroteHeader :: "nat option"
  written :: "chunk list"

definition fresh :: ResponseWriter where
  "fresh = \<lparr>Content_Type = None, wroteHeader = None, written = []\<rparr>"

definition Header_Set_Content_Type :: "string \<Rightarrow> ResponseWriter \<Rightarrow> ResponseWriter" where
  "Header_Set_Content_Type v w =
     (if wroteHeader w = None then w\<lparr>Content_Type := Some v\<rparr> else w)"

definition WriteHeader :: "nat \<Rightarrow> ResponseWriter \<Rightarrow> ResponseWriter" where
  "WriteHeader code w = (if wroteHeader w = None then w\<lparr>wroteHeader := Some code\<rparr> else w)"

definition Write :: "chunk \<Rightarrow> ResponseWriter \<Rightarrow> ResponseWriter" where
  "Write c w = (let w' = WriteHeader 200 w in w'\<lparr>written := written w' @ [c]\<rparr>)"

text \<open>
  \<^verbatim>\<open>http.Error(w, error, code)\<close> replaces the Content-Type, writes the status and
  prints the message followed by a newline.
\<close>

definition http_Error :: "ResponseWriter \<Rightarrow> string \<Rightarrow> nat \<Rightarrow> ResponseWriter" where
  "http_Error w msg code =
     Write (Text (msg @ [CHR 0x0A]))
       (WriteHeader code (Header_Set_Content_Type ''text/plain; charset=utf-8'' w))"

definition Encode :: "ResponseWriter \<Rightarrow> json \<Rightarrow> ResponseWriter" where
  "Encode w j = Write (JsonLine j) w"

text \<open>The status the client receives: 200 when the handler never wrote one.\<close>

definition Status :: "ResponseWriter \<Rightarrow> nat" where
  "Status w = (case wroteHeader w of None \<Rightarrow> 200 | Some code \<Rightarrow> code)"

definition StatusNoContent :: nat where "StatusNoContent = 204"
definition StatusBadRequest :: nat where "StatusBadRequest = 400"
definition StatusNotFound :: nat where "StatusNotFound = 404"
definition StatusUnsupportedMediaType :: nat where "StatusUnsupportedMediaType = 415"
definition StatusInternalServerError :: nat where "StatusInternalServerError = 500"

subsection \<open>The database handle\<close>

text \<open>
  \<^verbatim>\<open>dbConn\<close> is a \<^verbatim>\<open>*sql.DB\<close>. The handlers call three of its methods, each with
  the text of a statement and its arguments; the storage behind the handle has a state
  of some type \<open>'s\<close>, which every call may change. An error is the text of
  \<^verbatim>\<open>err.Error()\<close>, except for \<^verbatim>\<open>sql.ErrNoRows\<close>, which \<^verbatim>\<open>obterPessoa\<close> tells apart.

  \<^item> \<open>Query\<close> fails, or gives the rows that \<^verbatim>\<open>rows.Next()\<close> steps through; for each
    of them \<^verbatim>\<open>rows.Scan\<close> fails or yields the two columns.
  \<^item> \<open>QueryRow\<close> stands for \<^verbatim>\<open>QueryRow(...).Scan(&p.ID, &p.Nome)\<close>.
  \<^item> \<open>Exec\<close> fails or gives a \<^verbatim>\<open>sql.Result\<close>, whose two methods can fail in turn.
\<close>

datatype arg = AString string | AInt int

datatype row_error = ErrNoRows | ErrOther string

record Result =
  LastInsertId :: "string + int"
  RowsAffected :: "string + int"

record 's DB =
  Query :: "string \<Rightarrow> arg list \<Rightarrow> 's \<Rightarrow> (string + (string + int \<times> string) list) \<times> 's"
  QueryRow :: "string \<Rightarrow> arg list \<Rightarrow> 's \<Rightarrow> (row_error + int \<times> string) \<times> 's"
  Exec :: "string \<Rightarrow> arg list \<Rightarrow> 's \<Rightarrow> (string + Result) \<times> 's"

subsection \<open>strconv.Atoi\<close>

text \<open>
  \<^verbatim>\<open>strconv.Atoi\<close> reads an optional sign and one or more decimal digits, and fails
  on anything else and on a value outside the range of \<^verbatim>\<open>int\<close>. \<open>None\<close> is the
  error (the handler does not look at it).
\<close>

definition digit_value :: "char \<Rightarrow> nat option" where
  "digit_value c =
     (let n = (of_char c :: nat) in if 48 \<le> n \<and> n \<le> 57 then Some (n - 48) else None)"

fun digits_value :: "string \<Rightarrow> nat \<Rightarrow> nat option" where
  "digits_value [] acc = Some acc"
| "digits_value (c # cs) acc =
     (case digit_value c of None \<Rightarrow> None | Some d \<Rightarrow> digits_value cs (10 * acc + d))"

definition signed_decimal :: "string \<Rightarrow> int option" where
  "signed_decimal s =
     (case s of
        [] \<Rightarrow> None
      | c # cs \<Rightarrow>
          (let neg = (c = CHR ''-'');
               ds = (if c = CHR ''-'' \<or> c = CHR ''+'' then cs else s)
           in if ds = [] then None
              else (case digits_value ds 0 of
                      None \<Rightarrow> None
                    | Some n \<Rightarrow> Some (if neg then - int n else int n))))"

definition Atoi :: "string \<Rightarrow> int option" where
  "Atoi s =
     (case signed_decimal s of
        None \<Rightarrow> None
      | Some v \<Rightarrow> if - (2 ^ 63) \<le> v \<and> v < 2 ^ 63 then Some v else None)"

subsection \<open>The handlers\<close>

text \<open>The loop of \<^verbatim>\<open>listarPessoas\<close>: it returns at the first row that fails to scan.\<close>

fun scan_rows :: "(string + int \<times> string) list \<Rightarrow> slice \<Rightarrow> string + slice" where
  "scan_rows [] listaPessoas = Inr listaPessoas"
| "scan_rows (Inl err # rows) listaPessoas = Inl err"
| "scan_rows (Inr (i, n) # rows) listaPessoas =
     scan_rows rows (append_slice listaPessoas \<lparr>ID = i, Nome = n\<rparr>)"

definition listarPessoas ::
  "'s DB \<Rightarrow> Request \<Rightarrow> ResponseWriter \<Rightarrow> 's \<Rightarrow> ResponseWriter \<times> 's" where
  "listarPessoas dbConn r w s =
     (case Query dbConn ''SELECT id, nome FROM individuos'' [] s of
        (Inl err, s') \<Rightarrow>
          (http_Error w (''Erro ao buscar pessoas: '' @ err) StatusInternalServerError, s')
      | (Inr rows, s') \<Rightarrow>
          (case scan_rows rows None of
             Inl err \<Rightarrow>
               (http_Error w (''Erro ao escanear pessoa: '' @ err) StatusInternalServerError, s')
           | Inr listaPessoas \<Rightarrow>
               (Encode (Header_Set_Content_Type ''application/json'' w)
                  (Marshal_slice listaPessoas), s')))"

definition nao_encontrada :: string where
  "nao_encontrada = ''Pessoa n'' @ [CHR 0xC3, CHR 0xA3] @ ''o encontrada''"

definition ID_invalido :: string where
  "ID_invalido = ''ID inv'' @ [CHR 0xC3, CHR 0xA1] @ ''lido''"

definition obterPessoa ::
  "'s DB \<Rightarrow> Request \<Rightarrow> ResponseWriter \<Rightarrow> 's \<Rightarrow> ResponseWriter \<times> 's" where
  "obterPessoa dbConn r w s =
     (let params = Vars r; id' = index_map params ''id'' in
      case QueryRow dbConn ''SELECT id, nome FROM individuos WHERE id = ?'' [AString id'] s of
        (Inl ErrNoRows, s') \<Rightarrow> (http_Error w nao_encontrada StatusNotFound, s')
      | (Inl (ErrOther err), s') \<Rightarrow>
          (http_Error w (''Erro ao buscar pessoa: '' @ err) StatusInternalServerError, s')
      | (Inr (i, n), s') \<Rightarrow>
          (Encode (Header_Set_Content_Type ''application/json'' w)
             (Marshal_Pessoa \<lparr>ID = i, Nome = n\<rparr>), s'))"

definition adicionarPessoa ::
  "'s DB \<Rightarrow> Request \<Rightarrow> ResponseWriter \<Rightarrow> 's \<Rightarrow> ResponseWriter \<times> 's" where
  "adicionarPessoa dbConn r w0 s =
     (let w = Header_Set_Content_Type ''application/json'' w0 in
      if Header_Content_Type r \<noteq> ''application/json'' then
        (http_Error w ''O Content-Type deve ser application/json'' StatusUnsupportedMediaType, s)
      else
        case Body_Decode r of
          Inl err \<Rightarrow> (http_Error w (''Erro ao decodificar JSON: '' @ err) StatusBadRequest, s)
        | Inr novaPessoa \<Rightarrow>
            (case Exec dbConn ''INSERT INTO individuos (nome) VALUES (?)''
                    [AString (Nome novaPessoa)] s of
               (Inl err, s') \<Rightarrow>
                 (http_Error w (''Erro ao inserir pessoa: '' @ err) StatusInternalServerError, s')
             | (Inr resultado, s') \<Rightarrow>
                 (case LastInsertId resultado of
                    Inl err \<Rightarrow>
                      (http_Error w (''Erro ao obter ID da nova pessoa: '' @ err)
                         StatusInternalServerError, s')
                  | Inr id' \<Rightarrow> (Encode w (Marshal_Pessoa (novaPessoa\<lparr>ID := id'\<rparr>)), s'))))"

definition removerPessoa ::
  "'s DB \<Rightarrow> Request \<Rightarrow> ResponseWriter \<Rightarrow> 's \<Rightarrow> ResponseWriter \<times> 's" where
  "removerPessoa dbConn r w s =
     (let params = Vars r; id' = index_map params ''id'' in
      case Exec dbConn ''DELETE FROM individuos WHERE id = ?'' [AString id'] s of
        (Inl err, s') \<Rightarrow>
          (http_Error w (''Erro ao deletar pessoa: '' @ err) StatusInternalServerError, s')
      | (Inr _, s') \<Rightarrow> (WriteHeader StatusNoContent w, s'))"

definition modificarPessoa ::
  "'s DB \<Rightarrow> Request \<Rightarrow> ResponseWriter \<Rightarrow> 's \<Rightarrow> ResponseWriter \<times> 's" where
  "modificarPessoa dbConn r w0 s =
     (let w = Header_Set_Content_Type ''application/json'' w0 in
      if Header_Content_Type r \<noteq> ''application/json'' then
        (http_Error w ''O Content-Type deve ser application/json'' StatusUnsupportedMediaType, s)
      else
        let params = Vars r in
        case Atoi (index_map params ''id'') of
          None \<Rightarrow> (http_Error w ID_invalido StatusBadRequest, s)
        | Some id' \<Rightarrow>
            (case Body_Decode r of
               Inl err \<Rightarrow>
                 (http_Error w (''Erro ao decodificar JSON: '' @ err) StatusBadRequest, s)
             | Inr pessoaAtualizada \<Rightarrow>
                 (case Exec dbConn ''UPDATE individuos SET nome = ? WHERE id = ?''
                         [AString (Nome pessoaAtualizada), AInt id'] s of
                    (Inl err, s') \<Rightarrow>
                      (http_Error w (''Erro ao atualizar pessoa: '' @ err)
                         StatusInternalServerError, s')
                  | (Inr resultado, s') \<Rightarrow>
                      (case RowsAffected resultado of
                         Inl err \<Rightarrow>
                           (http_Error w (''Erro ao verificar linhas afetadas: '' @ err)
                              StatusInternalServerError, s')
                       | Inr linhasAfetadas \<Rightarrow>
                           if linhasAfetadas = 0 then
                             (http_Error w nao_encontrada StatusNotFound, s')
                           else
                             (Encode w (Marshal_Pessoa (pessoaAtualizada\<lparr>ID := id'\<rparr>)), s')))))"

subsection \<open>The storage: MySQL with the table of configurarDB\<close>

text \<open>
  \<^verbatim>\<open>configurarDB\<close> opens a MySQL database and creates
  \<^verbatim>\<open>individuos (id INT AUTO_INCREMENT PRIMARY KEY, nome VARCHAR(255) NOT NULL)\<close>.
  The server is not part of the repository. The theorems about the handlers alone hold
  for every handle; the theorems about stored rows, and the concrete runs, use the model
  below of what the server does with the five statements of server.go:
  \<^item> the state is the rows in the order of their insertion, the next value of the
    AUTO_INCREMENT counter, and \<open>failure\<close>: when it is \<open>Some err\<close> the server cannot be
    reached and every statement fails with \<open>err\<close>;
  \<^item> an INSERT takes its id from the counter; a counter beyond the range of INT is an
    error;
  \<^item> the column \<^verbatim>\<open>nome\<close> holds 255 characters, not bytes. A value of at most 255
    characters is stored as it is. Of a longer value the server, in its default, strict,
    mode, drops the characters beyond the column when all of them are spaces, with a
    warning that the driver does not report, and refuses the value with an error
    otherwise;
  \<^item> \<^verbatim>\<open>id = ?\<close> with a string argument compares numbers. The model reads the
    argument as a signed decimal numeral, which is what the numeral of an id is. The
    server converts every string to a floating-point number: it reads \<^verbatim>\<open>1.0\<close> as 1,
    and in strict mode it refuses a DELETE whose argument is not a number, where the model
    lets the string match no row. No universal theorem below uses the model on a string
    that is not a signed decimal numeral;
  \<^item> the connection string does not set \<^verbatim>\<open>clientFoundRows\<close>, so the count of an
    UPDATE is the number of rows it changed: a row that holds the new name already is not
    counted. The new value is checked against the column when it is assigned to a row, so
    an UPDATE that matches no row reports zero rows whatever the value;
  \<^item> the driver's \<^verbatim>\<open>LastInsertId\<close> and \<^verbatim>\<open>RowsAffected\<close> never fail.
\<close>

record Storage =
  individuos :: "(int \<times> string) list"
  AUTO_INCREMENT :: int
  failure :: "string option"

definition id_matches :: "string \<Rightarrow> int \<times> string \<Rightarrow> bool" where
  "id_matches v row = (signed_decimal v = Some (fst row))"

definition unsupported :: string where
  "unsupported = ''You have an error in your SQL syntax''"

definition too_long :: string where
  "too_long = ''Data too long for column nome at row 1''"

definition mysql_Query ::
  "string \<Rightarrow> arg list \<Rightarrow> Storage \<Rightarrow> (string + (string + int \<times> string) list) \<times> Storage" where
  "mysql_Query q args s =
     (case failure s of
        Some err \<Rightarrow> (Inl err, s)
      | None \<Rightarrow>
          if q = ''SELECT id, nome FROM individuos'' \<and> args = []
          then (Inr (map Inr (individuos s)), s)
          else (Inl unsupported, s))"

definition mysql_QueryRow ::
  "string \<Rightarrow> arg list \<Rightarrow> Storage \<Rightarrow> (row_error + int \<times> string) \<times> Storage" where
  "mysql_QueryRow q args s =
     (case failure s of
        Some err \<Rightarrow> (Inl (ErrOther err), s)
      | None \<Rightarrow>
          if q = ''SELECT id, nome FROM individuos WHERE id = ?''
          then (case args of
                  [AString v] \<Rightarrow>
                    (case find (id_matches v) (individuos s) of
                       None \<Rightarrow> (Inl ErrNoRows, s)
                     | Some row \<Rightarrow> (Inr row, s))
                | _ \<Rightarrow> (Inl (ErrOther unsupported), s))
          else (Inl (ErrOther unsupported), s))"

text \<open>
  The number of characters of a string in UTF-8: every byte but the continuation bytes
  (\<^verbatim>\<open>10xxxxxx\<close>) starts a character. The names that reach the storage are in UTF-8:
  the JSON decoder replaces every byte that is not.
\<close>

definition is_continuation :: "char \<Rightarrow> bool" where
  "is_continuation c = (let n = (of_char c :: nat) in 128 \<le> n \<and> n < 192)"

definition utf8_length :: "string \<Rightarrow> nat" where
  "utf8_length v = length (filter (\<lambda>c. \<not> is_continuation c) v)"

text \<open>
  What the column \<^verbatim>\<open>nome VARCHAR(255)\<close> stores when it is assigned \<open>v\<close>; \<open>None\<close>
  when the server refuses the value. A space is one byte, so the characters beyond the
  column are all spaces exactly when the last bytes, as many as there are characters too
  many, are spaces.
\<close>

definition column_value :: "string \<Rightarrow> string option" where
  "column_value v =
     (if utf8_length v \<le> 255 then Some v
      else let keep = length v - (utf8_length v - 255)
           in if list_all (\<lambda>c. c = CHR '' '') (drop keep v) then Some (take keep v)
              else None)"

definition insert_row :: "string \<Rightarrow> Storage \<Rightarrow> (string + Result) \<times> Storage" where
  "insert_row nome s =
     (case column_value nome of
        None \<Rightarrow> (Inl too_long, s)
      | Some stored \<Rightarrow>
          if AUTO_INCREMENT s > 2147483647
          then (Inl ''Out of range value for column id'', s)
          else (Inr \<lparr>LastInsertId = Inr (AUTO_INCREMENT s), RowsAffected = Inr 1\<rparr>,
                s\<lparr>individuos := individuos s @ [(AUTO_INCREMENT s, stored)],
                  AUTO_INCREMENT := AUTO_INCREMENT s + 1\<rparr>))"

definition delete_rows :: "string \<Rightarrow> Storage \<Rightarrow> (string + Result) \<times> Storage" where
  "delete_rows v s =
     (Inr \<lparr>LastInsertId = Inr 0,
           RowsAffected = Inr (int (length (filter (id_matches v) (individuos s))))\<rparr>,
      s\<lparr>individuos := filter (\<lambda>row. \<not> id_matches v row) (individuos s)\<rparr>)"

definition update_rows :: "string \<Rightarrow> int \<Rightarrow> Storage \<Rightarrow> (string + Result) \<times> Storage" where
  "update_rows nome i s =
     (if list_ex (\<lambda>row. fst row = i) (individuos s) then
        (case column_value nome of
           None \<Rightarrow> (Inl too_long, s)
         | Some stored \<Rightarrow>
             (Inr \<lparr>LastInsertId = Inr 0,
                   RowsAffected =
                     Inr (int (length (filter (\<lambda>row. fst row = i \<and> snd row \<noteq> stored)
                                         (individuos s))))\<rparr>,
              s\<lparr>individuos :=
                  map (\<lambda>row. if fst row = i then (fst row, stored) else row) (individuos s)\<rparr>))
      else (Inr \<lparr>LastInsertId = Inr 0, RowsAffected = Inr 0\<rparr>, s))"

definition mysql_Exec ::
  "string \<Rightarrow> arg list \<Rightarrow> Storage \<Rightarrow> (string + Result) \<times> Storage" where
  "mysql_Exec q args s =
     (case failure s of
        Some err \<Rightarrow> (Inl err, s)
      | None \<Rightarrow>
          if q = ''INSERT INTO individuos (nome) VALUES (?)''
          then (case args of [AString nome] \<Rightarrow> insert_row nome s | _ \<Rightarrow> (Inl unsupported, s))
          else if q = ''DELETE FROM individuos WHERE id = ?''
          then (case args of [AString v] \<Rightarrow> delete_rows v s | _ \<Rightarrow> (Inl unsupported, s))
          else if q = ''UPDATE individuos SET nome = ? WHERE id = ?''
          then (case args of
                  [AString nome, AInt i] \<Rightarrow> update_rows nome i s
                | _ \<Rightarrow> (Inl unsupported, s))
          else (Inl unsupported, s))"

definition mysql :: "Storage DB" where
  "mysql = \<lparr>Query = mysql_Query, QueryRow = mysql_QueryRow, Exec = mysql_Exec\<rparr>"

text \<open>The table as \<^verbatim>\<open>configurarDB\<close> creates it, and a server that cannot be reached.\<close>

definition empty_table :: Storage where
  "empty_table = \<lparr>individuos = [], AUTO_INCREMENT = 1, failure = None\<rparr>"

definition unreachable :: Storage where
  "unreachable = \<lparr>individuos = [], AUTO_INCREMENT = 1, failure = Some ''connection refused''\<rparr>"

text \<open>
  What the counter guarantees of a table that only the service writes to: the id of
  every row is below the counter.
\<close>

definition table_ok :: "Storage \<Rightarrow> bool" where
  "table_ok s = list_all (\<lambda>row. fst row < AUTO_INCREMENT s) (individuos s)"

subsection \<open>The numeral of an id\<close>

text \<open>
  The decimal numeral of an integer, as \<^verbatim>\<open>strconv.Itoa\<close> prints it and as the JSON
  encoder writes the \<^verbatim>\<open>id\<close> of a response: what a client puts in the path to ask for
  the \<^verbatim>\<open>Pessoa\<close> with that id.
\<close>

definition digit_char :: "nat \<Rightarrow> char" where
  "digit_char d = char_of (48 + d)"

fun digits_of :: "nat \<Rightarrow> string" where
  "digits_of n =
     (if n < 10 then [digit_char n] else digits_of (n div 10) @ [digit_char (n mod 10)])"

declare digits_of.simps [simp del]

definition Itoa :: "int \<Rightarrow> string" where
  "Itoa i = (if i < 0 then CHR ''-'' # digits_of (nat (- i)) else digits_of (nat i))"

text \<open>A request as the router hands it to a handler.\<close>

definition request :: "string \<Rightarrow> string \<Rightarrow> string + Pessoa \<Rightarrow> Request" where
  "request content_type path_id body =
     \<lparr>Header_Content_Type = content_type, Vars = [''id'' \<mapsto> path_id], Body_Decode = body\<rparr>"

section \<open>Properties\<close>

subsection \<open>The response writer\<close>

lemmas status_defs = StatusNoContent_def StatusBadRequest_def StatusNotFound_def
  StatusUnsupportedMediaType_def StatusInternalServerError_def

lemmas writer_defs = http_Error_def Encode_def Write_def WriteHeader_def
  Header_Set_Content_Type_def Status_def fresh_def

lemma Status_http_Error: "wroteHeader w = None \<Longrightarrow> Status (http_Error w msg code) = code"
  by (simp add: writer_defs)

lemma written_http_Error:
  "wroteHeader w = None \<Longrightarrow>
   written (http_Error w msg code) = written w @ [Text (msg @ [CHR 0x0A])]"
  by (simp add: writer_defs)

lemma Status_Encode: "wroteHeader w = None \<Longrightarrow> Status (Encode w j) = 200"
  by (simp add: writer_defs)

lemma written_Encode: "written (Encode w j) = written w @ [JsonLine j]"
  by (simp add: writer_defs Let_def)

lemma wroteHeader_Header_Set: "wroteHeader (Header_Set_Content_Type v w) = wroteHeader w"
  by (simp add: writer_defs)

lemma written_Header_Set: "written (Header_Set_Content_Type v w) = written w"
  by (simp add: writer_defs)

lemma fresh_simps: "wroteHeader fresh = None" "written fresh = []" "Content_Type fresh = None"
  by (simp_all add: fresh_def)

lemmas writer_simps = Status_http_Error written_http_Error Status_Encode written_Encode
  wroteHeader_Header_Set written_Header_Set fresh_simps

lemmas mysql_defs = mysql_def mysql_Query_def mysql_QueryRow_def mysql_Exec_def
  insert_row_def delete_rows_def update_rows_def empty_table_def unreachable_def
  id_matches_def unsupported_def too_long_def column_value_def utf8_length_def
  is_continuation_def

subsection \<open>The column\<close>

lemma column_value_fits: "utf8_length v \<le> 255 \<Longrightarrow> column_value v = Some v"
  by (simp add: column_value_def)

lemma utf8_length_Nil: "utf8_length [] = 0"
  by (simp add: utf8_length_def)

lemma utf8_length_Cons:
  "utf8_length (c # cs) = (if is_continuation c then utf8_length cs else Suc (utf8_length cs))"
  by (simp add: utf8_length_def)

lemma utf8_length_append: "utf8_length (xs @ ys) = utf8_length xs + utf8_length ys"
  by (simp add: utf8_length_def)

lemma utf8_length_replicate:
  "utf8_length (replicate n c) = (if is_continuation c then 0 else n)"
  by (induction n) (simp_all add: utf8_length_def)

lemma utf8_length_concat_replicate:
  "utf8_length (concat (replicate n v)) = n * utf8_length v"
  by (induction n) (simp_all add: utf8_length_append utf8_length_Nil)

lemma not_continuation_ascii:
  "\<not> is_continuation (CHR ''a'')" "\<not> is_continuation (CHR '' '')"
  by (simp_all add: is_continuation_def)


lemmas eval_defs = request_def index_map_def Atoi_def signed_decimal_def digit_value_def
  Marshal_Pessoa_def nao_encontrada_def ID_invalido_def

lemma Marshal_Pessoa_ID_update:
  "Marshal_Pessoa (p\<lparr>ID := i\<rparr>) = Marshal_Pessoa \<lparr>ID = i, Nome = Nome p\<rparr>"
  by (simp add: Marshal_Pessoa_def)

lemma Marshal_Pessoa_inject:
  "Marshal_Pessoa p = Marshal_Pessoa q \<Longrightarrow> ID p = ID q \<and> Nome p = Nome q"
  by (simp add: Marshal_Pessoa_def)

subsection \<open>Numerals\<close>

text \<open>Reading the numeral of an integer gives the integer back.\<close>

lemma digit_value_digit_char: "d < 10 \<Longrightarrow> digit_value (digit_char d) = Some d"
  by (simp add: digit_value_def digit_char_def Let_def)

lemma digits_value_append:
  "digits_value (xs @ ys) acc =
     (case digits_value xs acc of None \<Rightarrow> None | Some v \<Rightarrow> digits_value ys v)"
  by (induction xs arbitrary: acc) (auto split: option.splits)

lemma digits_value_digits_of: "digits_value (digits_of n) 0 = Some n"
proof (induction n rule: digits_of.induct)
  case (1 n)
  show ?case
  proof (cases "n < 10")
    case True
    then show ?thesis
      by (subst digits_of.simps) (simp add: digit_value_digit_char)
  next
    case False
    with 1 have ih: "digits_value (digits_of (n div 10)) 0 = Some (n div 10)" by simp
    have "n mod 10 < 10" by simp
    then have d: "digit_value (digit_char (n mod 10)) = Some (n mod 10)"
      by (rule digit_value_digit_char)
    from False show ?thesis
      by (subst digits_of.simps) (simp add: digits_value_append ih d)
  qed
qed

lemma signed_decimal_digits_of: "signed_decimal (digits_of n) = Some (int n)"
proof (cases "digits_of n")
  case Nil
  with digits_value_digits_of [of n] show ?thesis
    by (subst (asm) digits_of.simps) (simp split: if_splits)
next
  case (Cons c cs)
  with digits_value_digits_of [of n] have v: "digits_value (c # cs) 0 = Some n" by simp
  then have "digit_value c \<noteq> None" by (auto split: option.splits)
  then have "c \<noteq> CHR ''-''" "c \<noteq> CHR ''+''"
    by (auto simp: digit_value_def)
  with Cons v show ?thesis
    by (simp add: signed_decimal_def Let_def)
qed

lemma signed_decimal_Itoa: "signed_decimal (Itoa i) = Some i"
proof (cases "i < 0")
  case True
  have ne: "digits_of (nat (- i)) \<noteq> []"
    by (subst digits_of.simps) simp
  from True show ?thesis
    using digits_value_digits_of [of "nat (- i)"] ne
    by (simp add: Itoa_def signed_decimal_def Let_def)
next
  case False
  then show ?thesis
    by (simp add: Itoa_def signed_decimal_digits_of)
qed

lemma Itoa_1: "Itoa 1 = ''1''"
  by code_simp

subsection \<open>List\<close>

text \<open>Whatever the handle, a query that yields no row is answered with \<^verbatim>\<open>null\<close>.\<close>

lemma listarPessoas_no_rows:
  "Query dbConn ''SELECT id, nome FROM individuos'' [] s = (Inr [], s') \<Longrightarrow>
   listarPessoas dbConn r fresh s =
     (\<lparr>Content_Type = Some ''application/json'', wroteHeader = Some 200,
       written = [JsonLine JNull]\<rparr>, s')"
  by (simp add: listarPessoas_def writer_defs Marshal_slice_def)

text \<open>
  Claim C2 says that List answers an empty table with status 200 and the JSON empty
  array. \<^verbatim>\<open>listaPessoas\<close> is declared without a value, so it is the nil slice, and with
  no row the loop never appends to it: the encoder writes \<^verbatim>\<open>null\<close>. The run below is
  \<^verbatim>\<open>GET /pessoas\<close> on the table as \<^verbatim>\<open>configurarDB\<close> creates it.
\<close>

theorem listarPessoas_empty_table_null:
  "listarPessoas mysql \<lparr>Header_Content_Type = [], Vars = Map.empty, Body_Decode = Inl ''EOF''\<rparr>
     fresh empty_table =
   (\<lparr>Content_Type = Some ''application/json'', wroteHeader = Some 200,
     written = [JsonLine JNull]\<rparr>, empty_table) \<and>
   JNull \<noteq> JArray []"
  by (simp add: listarPessoas_def mysql_defs writer_defs Marshal_slice_def Let_def)

subsection \<open>Get by id\<close>

text \<open>
  Claim C3: when the lookup of \<^verbatim>\<open>obterPessoa\<close> finds no row (\<^verbatim>\<open>sql.ErrNoRows\<close>) the
  status is 404, and when it fails with any other error the status is 500. This holds for
  every database handle, request and state of the storage.
\<close>

theorem obterPessoa_not_found_or_internal_error:
  "(fst (QueryRow dbConn ''SELECT id, nome FROM individuos WHERE id = ?''
           [AString (index_map (Vars r) ''id'')] s) = Inl ErrNoRows
      \<longrightarrow> Status (fst (obterPessoa dbConn r fresh s)) = 404) \<and>
   (fst (QueryRow dbConn ''SELECT id, nome FROM individuos WHERE id = ?''
           [AString (index_map (Vars r) ''id'')] s) = Inl (ErrOther err)
      \<longrightarrow> Status (fst (obterPessoa dbConn r fresh s)) = 500)"
  by (auto simp: obterPessoa_def Let_def writer_simps status_defs
           split: prod.splits sum.splits row_error.splits)

theorem obterPessoa_not_found_or_internal_error_witness:
  "fst (QueryRow mysql ''SELECT id, nome FROM individuos WHERE id = ?''
          [AString (index_map (Vars (request [] ''7'' (Inl ''EOF''))) ''id'')] empty_table)
     = Inl ErrNoRows \<and>
   Status (fst (obterPessoa mysql (request [] ''7'' (Inl ''EOF'')) fresh empty_table)) = 404 \<and>
   fst (QueryRow mysql ''SELECT id, nome FROM individuos WHERE id = ?''
          [AString (index_map (Vars (request [] ''7'' (Inl ''EOF''))) ''id'')] unreachable)
     = Inl (ErrOther ''connection refused'') \<and>
   Status (fst (obterPessoa mysql (request [] ''7'' (Inl ''EOF'')) fresh unreachable)) = 500"
  using
    obterPessoa_not_found_or_internal_error
      [of mysql "request [] ''7'' (Inl ''EOF'')" empty_table "''connection refused''"]
    obterPessoa_not_found_or_internal_error
      [of mysql "request [] ''7'' (Inl ''EOF'')" unreachable "''connection refused''"]
  by (simp add: mysql_defs request_def index_map_def)

subsection \<open>Delete\<close>

text \<open>
  Claim C5: whenever the DELETE statement of \<^verbatim>\<open>removerPessoa\<close> succeeds, the status is
  204 and nothing is written to the body. The handler does not look at the result of the
  statement, so it makes no difference whether a row was deleted.
\<close>

theorem removerPessoa_no_content:
  "fst (Exec dbConn ''DELETE FROM individuos WHERE id = ?''
          [AString (index_map (Vars r) ''id'')] s) = Inr resultado \<Longrightarrow>
   Status (fst (removerPessoa dbConn r fresh s)) = 204 \<and>
   written (fst (removerPessoa dbConn r fresh s)) = []"
  by (auto simp: removerPessoa_def Let_def writer_defs status_defs
           split: prod.splits sum.splits)

text \<open>Deleting id 7 from a table without it, and from a table that holds it.\<close>

theorem removerPessoa_no_content_witness:
  "fst (Exec mysql ''DELETE FROM individuos WHERE id = ?''
          [AString (index_map (Vars (request [] ''7'' (Inl ''EOF''))) ''id'')] empty_table)
     = Inr \<lparr>LastInsertId = Inr 0, RowsAffected = Inr 0\<rparr> \<and>
   Status (fst (removerPessoa mysql (request [] ''7'' (Inl ''EOF'')) fresh empty_table)) = 204 \<and>
   written (fst (removerPessoa mysql (request [] ''7'' (Inl ''EOF'')) fresh empty_table)) = [] \<and>
   fst (Exec mysql ''DELETE FROM individuos WHERE id = ?''
          [AString (index_map (Vars (request [] ''7'' (Inl ''EOF''))) ''id'')]
          \<lparr>individuos = [(7, ''Ana'')], AUTO_INCREMENT = 8, failure = None\<rparr>)
     = Inr \<lparr>LastInsertId = Inr 0, RowsAffected = Inr 1\<rparr> \<and>
   Status (fst (removerPessoa mysql (request [] ''7'' (Inl ''EOF'')) fresh
     \<lparr>individuos = [(7, ''Ana'')], AUTO_INCREMENT = 8, failure = None\<rparr>)) = 204 \<and>
   snd (removerPessoa mysql (request [] ''7'' (Inl ''EOF'')) fresh
     \<lparr>individuos = [(7, ''Ana'')], AUTO_INCREMENT = 8, failure = None\<rparr>) =
     \<lparr>individuos = [], AUTO_INCREMENT = 8, failure = None\<rparr>"
proof -
  have e0: "fst (Exec mysql ''DELETE FROM individuos WHERE id = ?''
          [AString (index_map (Vars (request [] ''7'' (Inl ''EOF''))) ''id'')] empty_table)
     = Inr \<lparr>LastInsertId = Inr 0, RowsAffected = Inr 0\<rparr>"
    by (simp add: mysql_defs request_def index_map_def)
  have e1: "Exec mysql ''DELETE FROM individuos WHERE id = ?''
          [AString (index_map (Vars (request [] ''7'' (Inl ''EOF''))) ''id'')]
          \<lparr>individuos = [(7, ''Ana'')], AUTO_INCREMENT = 8, failure = None\<rparr>
     = (Inr \<lparr>LastInsertId = Inr 0, RowsAffected = Inr 1\<rparr>,
        \<lparr>individuos = [], AUTO_INCREMENT = 8, failure = None\<rparr>)"
    by (simp add: mysql_defs request_def index_map_def signed_decimal_def digit_value_def)
  have s1: "snd (removerPessoa mysql (request [] ''7'' (Inl ''EOF'')) fresh
     \<lparr>individuos = [(7, ''Ana'')], AUTO_INCREMENT = 8, failure = None\<rparr>) =
     \<lparr>individuos = [], AUTO_INCREMENT = 8, failure = None\<rparr>"
    by (simp add: removerPessoa_def Let_def e1)
  from e1 have e1': "fst (Exec mysql ''DELETE FROM individuos WHERE id = ?''
          [AString (index_map (Vars (request [] ''7'' (Inl ''EOF''))) ''id'')]
          \<lparr>individuos = [(7, ''Ana'')], AUTO_INCREMENT = 8, failure = None\<rparr>)
     = Inr \<lparr>LastInsertId = Inr 0, RowsAffected = Inr 1\<rparr>"
    by simp
  show ?thesis
    using removerPessoa_no_content [OF e0] removerPessoa_no_content [OF e1'] e0 e1' s1
    by simp
qed

subsection \<open>Create, then get\<close>

text \<open>
  The empty table has every id below the counter, and the handlers that write keep it
  so.
\<close>

lemma table_ok_empty_table: "table_ok empty_table"
  by (simp add: table_ok_def empty_table_def)

lemma table_ok_insert_row: "table_ok s \<Longrightarrow> table_ok (snd (insert_row n s))"
  by (auto simp: table_ok_def insert_row_def list_all_iff split: option.splits)

lemma table_ok_delete_rows: "table_ok s \<Longrightarrow> table_ok (snd (delete_rows v s))"
  by (auto simp: table_ok_def delete_rows_def list_all_iff)

lemma table_ok_update_rows: "table_ok s \<Longrightarrow> table_ok (snd (update_rows n i s))"
  by (auto simp: table_ok_def update_rows_def list_all_iff split: option.splits)

lemma table_ok_mysql_Exec: "table_ok s \<Longrightarrow> table_ok (snd (mysql_Exec q args s))"
  by (auto simp: mysql_Exec_def table_ok_insert_row table_ok_delete_rows table_ok_update_rows
      split: option.splits list.splits arg.splits)

lemma table_ok_Exec_mysql:
  "table_ok s \<Longrightarrow> Exec mysql q args s = (res, s') \<Longrightarrow> table_ok s'"
  using table_ok_mysql_Exec [of s q args] by (simp add: mysql_def)

lemma table_ok_handlers:
  assumes "table_ok s"
  shows "table_ok (snd (adicionarPessoa mysql r w s))"
    and "table_ok (snd (modificarPessoa mysql r w s))"
    and "table_ok (snd (removerPessoa mysql r w s))"
  using assms
  by (auto simp: adicionarPessoa_def modificarPessoa_def removerPessoa_def Let_def
      dest: table_ok_Exec_mysql split: prod.splits sum.splits option.splits)

lemma find_fresh_id:
  "list_all (\<lambda>row. fst row < a) rows \<Longrightarrow>
   find (id_matches (Itoa a)) (rows @ [(a, n)]) = Some (a, n)"
  by (induction rows) (auto simp: id_matches_def signed_decimal_Itoa)

text \<open>
  A creation that answers with JSON has inserted a row with the id it names and with
  the name as the column stores it.
\<close>

lemma adicionarPessoa_mysql_json:
  assumes "adicionarPessoa mysql r fresh s = (w, s')"
    and "written w = [JsonLine j]"
  shows "\<exists>p stored. Body_Decode r = Inr p \<and> failure s = None \<and>
           column_value (Nome p) = Some stored \<and>
           j = Marshal_Pessoa \<lparr>ID = AUTO_INCREMENT s, Nome = Nome p\<rparr> \<and>
           s' = s\<lparr>individuos := individuos s @ [(AUTO_INCREMENT s, stored)],
                  AUTO_INCREMENT := AUTO_INCREMENT s + 1\<rparr>"
  using assms
  by (auto simp: adicionarPessoa_def Let_def writer_simps mysql_def mysql_Exec_def
        insert_row_def Marshal_Pessoa_ID_update
      split: if_splits sum.splits option.splits prod.splits)

text \<open>
  Claim C1 says that for every name, creating a \<^verbatim>\<open>Pessoa\<close> with that name and then
  fetching the id of the creation's response yields that id and that name. The handler
  answers with the name of the request, not with the stored one, and the column holds
  255 characters: a name of 255 letters and one space is created with status 200, the
  column drops the space, and \<^verbatim>\<open>GET /pessoas/1\<close> returns the name without it.
\<close>

theorem create_then_get_counterexample:
  "adicionarPessoa mysql
     (request ''application/json'' []
        (Inr \<lparr>ID = 0, Nome = replicate 255 (CHR ''a'') @ [CHR '' '']\<rparr>))
     fresh empty_table =
   (\<lparr>Content_Type = Some ''application/json'', wroteHeader = Some 200,
     written = [JsonLine (Marshal_Pessoa
                  \<lparr>ID = 1, Nome = replicate 255 (CHR ''a'') @ [CHR '' '']\<rparr>)]\<rparr>,
    \<lparr>individuos = [(1, replicate 255 (CHR ''a''))], AUTO_INCREMENT = 2, failure = None\<rparr>) \<and>
   obterPessoa mysql (request [] ''1'' (Inl ''EOF'')) fresh
     \<lparr>individuos = [(1, replicate 255 (CHR ''a''))], AUTO_INCREMENT = 2, failure = None\<rparr> =
   (\<lparr>Content_Type = Some ''application/json'', wroteHeader = Some 200,
     written = [JsonLine (Marshal_Pessoa \<lparr>ID = 1, Nome = replicate 255 (CHR ''a'')\<rparr>)]\<rparr>,
    \<lparr>individuos = [(1, replicate 255 (CHR ''a''))], AUTO_INCREMENT = 2, failure = None\<rparr>) \<and>
   replicate 255 (CHR ''a'') \<noteq> replicate 255 (CHR ''a'') @ [CHR '' '']"
proof -
  let ?n = "replicate 255 (CHR ''a'') @ [CHR '' '']"
  have len: "utf8_length ?n = 256"
    by (simp add: utf8_length_append utf8_length_replicate utf8_length_Cons utf8_length_Nil
        not_continuation_ascii)
  have col: "column_value ?n = Some (replicate 255 (CHR ''a''))"
    by (simp add: column_value_def len Let_def)
  have create: "adicionarPessoa mysql (request ''application/json'' [] (Inr \<lparr>ID = 0, Nome = ?n\<rparr>))
       fresh empty_table =
     (\<lparr>Content_Type = Some ''application/json'', wroteHeader = Some 200,
       written = [JsonLine (Marshal_Pessoa \<lparr>ID = 1, Nome = ?n\<rparr>)]\<rparr>,
      \<lparr>individuos = [(1, replicate 255 (CHR ''a''))], AUTO_INCREMENT = 2, failure = None\<rparr>)"
    by (simp add: adicionarPessoa_def Let_def request_def mysql_def mysql_Exec_def
        insert_row_def empty_table_def col writer_defs Marshal_Pessoa_def)
  have get: "obterPessoa mysql (request [] ''1'' (Inl ''EOF'')) fresh
       \<lparr>individuos = [(1, replicate 255 (CHR ''a''))], AUTO_INCREMENT = 2, failure = None\<rparr> =
     (\<lparr>Content_Type = Some ''application/json'', wroteHeader = Some 200,
       written = [JsonLine (Marshal_Pessoa \<lparr>ID = 1, Nome = replicate 255 (CHR ''a'')\<rparr>)]\<rparr>,
      \<lparr>individuos = [(1, replicate 255 (CHR ''a''))], AUTO_INCREMENT = 2, failure = None\<rparr>)"
    by (simp add: obterPessoa_def Let_def request_def index_map_def mysql_def
        mysql_QueryRow_def id_matches_def signed_decimal_def digit_value_def writer_defs)
  have "length (replicate 255 (CHR ''a'')) \<noteq> length ?n" by simp
  then have ne: "replicate 255 (CHR ''a'') \<noteq> ?n" by metis
  from create get ne show ?thesis by simp
qed

text \<open>
  Claim C1 as amended: for every name of at most 255 characters, when
  \<^verbatim>\<open>adicionarPessoa\<close> is given a body with that name and answers with the JSON of a
  \<^verbatim>\<open>Pessoa\<close>, then \<^verbatim>\<open>obterPessoa\<close>, asked for the id of that answer (its numeral
  in the path), answers 200 with the JSON of the \<^verbatim>\<open>Pessoa\<close> that has the same id and
  the name given at creation. For a name of any length it answers with the same id and
  the name as the column stores it. The storage is the table of the service, with every
  id below the counter.
\<close>

theorem create_then_get:
  assumes ok: "table_ok s"
    and body: "Body_Decode r = Inr p"
    and create: "adicionarPessoa mysql r fresh s = (w, s')"
    and resp: "written w = [JsonLine (Marshal_Pessoa created)]"
    and path: "Vars g ''id'' = Some (Itoa (ID created))"
  shows "(utf8_length (Nome p) \<le> 255 \<longrightarrow>
          obterPessoa mysql g fresh s' =
            (\<lparr>Content_Type = Some ''application/json'', wroteHeader = Some 200,
              written = [JsonLine (Marshal_Pessoa \<lparr>ID = ID created, Nome = Nome p\<rparr>)]\<rparr>, s')) \<and>
         (\<exists>stored. column_value (Nome p) = Some stored \<and>
            obterPessoa mysql g fresh s' =
              (\<lparr>Content_Type = Some ''application/json'', wroteHeader = Some 200,
                written = [JsonLine (Marshal_Pessoa \<lparr>ID = ID created, Nome = stored\<rparr>)]\<rparr>, s'))"
proof -
  from adicionarPessoa_mysql_json [OF create resp] body
  obtain stored where up: "failure s = None"
    and col: "column_value (Nome p) = Some stored"
    and j: "Marshal_Pessoa created = Marshal_Pessoa \<lparr>ID = AUTO_INCREMENT s, Nome = Nome p\<rparr>"
    and s': "s' = s\<lparr>individuos := individuos s @ [(AUTO_INCREMENT s, stored)],
                  AUTO_INCREMENT := AUTO_INCREMENT s + 1\<rparr>"
    by auto
  from Marshal_Pessoa_inject [OF j] have idc: "ID created = AUTO_INCREMENT s" by simp
  from ok have "list_all (\<lambda>row. fst row < AUTO_INCREMENT s) (individuos s)"
    by (simp add: table_ok_def)
  then have f: "find (id_matches (Itoa (AUTO_INCREMENT s)))
                  (individuos s @ [(AUTO_INCREMENT s, stored)]) = Some (AUTO_INCREMENT s, stored)"
    by (rule find_fresh_id)
  have get: "obterPessoa mysql g fresh s' =
       (\<lparr>Content_Type = Some ''application/json'', wroteHeader = Some 200,
         written = [JsonLine (Marshal_Pessoa \<lparr>ID = ID created, Nome = stored\<rparr>)]\<rparr>, s')"
    by (simp add: obterPessoa_def Let_def index_map_def path idc mysql_def mysql_QueryRow_def
        s' up f writer_defs)
  have "utf8_length (Nome p) \<le> 255 \<Longrightarrow> stored = Nome p"
    using col by (simp add: column_value_fits)
  with get col show ?thesis by auto
qed

text \<open>
  A name of 128 characters of two bytes each (256 bytes) is created in the empty table
  with id 1, and \<^verbatim>\<open>GET /pessoas/1\<close> returns it.
\<close>

theorem create_then_get_witness:
  "table_ok empty_table \<and>
   utf8_length (concat (replicate 128 [CHR 0xC3, CHR 0xA9])) \<le> 255 \<and>
   length (concat (replicate 128 [CHR 0xC3, CHR 0xA9])) = 256 \<and>
   adicionarPessoa mysql
     (request ''application/json'' []
        (Inr \<lparr>ID = 0, Nome = concat (replicate 128 [CHR 0xC3, CHR 0xA9])\<rparr>))
     fresh empty_table =
   (\<lparr>Content_Type = Some ''application/json'', wroteHeader = Some 200,
     written = [JsonLine (Marshal_Pessoa
                  \<lparr>ID = 1, Nome = concat (replicate 128 [CHR 0xC3, CHR 0xA9])\<rparr>)]\<rparr>,
    \<lparr>individuos = [(1, concat (replicate 128 [CHR 0xC3, CHR 0xA9]))], AUTO_INCREMENT = 2,
      failure = None\<rparr>) \<and>
   obterPessoa mysql (request [] ''1'' (Inl ''EOF'')) fresh
     \<lparr>individuos = [(1, concat (replicate 128 [CHR 0xC3, CHR 0xA9]))], AUTO_INCREMENT = 2,
       failure = None\<rparr> =
   (\<lparr>Content_Type = Some ''application/json'', wroteHeader = Some 200,
     written = [JsonLine (Marshal_Pessoa
                  \<lparr>ID = 1, Nome = concat (replicate 128 [CHR 0xC3, CHR 0xA9])\<rparr>)]\<rparr>,
    \<lparr>individuos = [(1, concat (replicate 128 [CHR 0xC3, CHR 0xA9]))], AUTO_INCREMENT = 2,
      failure = None\<rparr>)"
proof -
  let ?n = "concat (replicate 128 [CHR 0xC3, CHR 0xA9])"
  let ?r = "request ''application/json'' [] (Inr \<lparr>ID = 0, Nome = ?n\<rparr>)"
  let ?g = "request [] ''1'' (Inl ''EOF'')"
  let ?w = "\<lparr>Content_Type = Some ''application/json'', wroteHeader = Some 200,
     written = [JsonLine (Marshal_Pessoa \<lparr>ID = 1, Nome = ?n\<rparr>)]\<rparr>"
  let ?s' = "\<lparr>individuos = [(1, ?n)], AUTO_INCREMENT = 2, failure = None\<rparr>"
  have ok: "table_ok empty_table"
    by (rule table_ok_empty_table)
  have "utf8_length [CHR 0xC3, CHR 0xA9] = 1"
    by (simp add: utf8_length_Cons utf8_length_Nil is_continuation_def)
  then have len: "utf8_length ?n = 128"
    by (simp add: utf8_length_concat_replicate)
  then have fits: "utf8_length ?n \<le> 255" by simp
  have bytes: "length ?n = 256"
    by (simp add: length_concat sum_list_replicate)
  have body: "Body_Decode ?r = Inr \<lparr>ID = 0, Nome = ?n\<rparr>"
    by (simp add: request_def)
  have create: "adicionarPessoa mysql ?r fresh empty_table = (?w, ?s')"
    by (simp add: adicionarPessoa_def Let_def request_def mysql_def mysql_Exec_def
        insert_row_def empty_table_def column_value_fits [OF fits] writer_defs
        Marshal_Pessoa_def)
  have resp: "written ?w = [JsonLine (Marshal_Pessoa \<lparr>ID = 1, Nome = ?n\<rparr>)]"
    by simp
  have path: "Vars ?g ''id'' = Some (Itoa (ID \<lparr>ID = 1, Nome = ?n\<rparr>))"
    by (simp add: request_def Itoa_1)
  from create_then_get [OF ok body create resp path] fits
  have "obterPessoa mysql ?g fresh ?s' = (?w, ?s')" by simp
  with ok fits bytes create show ?thesis by simp
qed

subsection \<open>Update\<close>

text \<open>
  Claim C4 says that every Update request with a valid integer path id, a valid JSON
  body and a JSON content-type is answered with 404 when no row is affected and with the
  updated \<^verbatim>\<open>Pessoa\<close> otherwise. The handler asks for more than that. A Content-Type
  that declares JSON with a parameter is answered with 415, although the row exists; the
  integer 9223372036854775808 is beyond \<^verbatim>\<open>int\<close> and is answered with 400, not with
  404; and a body that is valid JSON but does not decode into a \<^verbatim>\<open>Pessoa\<close> (a number
  for \<^verbatim>\<open>nome\<close>) is answered with 400. None of the three runs a statement. And when
  the statement itself fails, no row is affected and the answer is 500.
\<close>

theorem modificarPessoa_rows_affected_counterexample:
  "modificarPessoa mysql
     (request ''application/json; charset=utf-8'' ''1'' (Inr \<lparr>ID = 0, Nome = ''Bia''\<rparr>)) fresh
     \<lparr>individuos = [(1, ''Ana'')], AUTO_INCREMENT = 2, failure = None\<rparr> =
   (\<lparr>Content_Type = Some ''text/plain; charset=utf-8'', wroteHeader = Some 415,
     written = [Text (''O Content-Type deve ser application/json'' @ [CHR 0x0A])]\<rparr>,
    \<lparr>individuos = [(1, ''Ana'')], AUTO_INCREMENT = 2, failure = None\<rparr>) \<and>
   modificarPessoa mysql
     (request ''application/json'' ''9223372036854775808'' (Inr \<lparr>ID = 0, Nome = ''Bia''\<rparr>))
     fresh \<lparr>individuos = [(1, ''Ana'')], AUTO_INCREMENT = 2, failure = None\<rparr> =
   (\<lparr>Content_Type = Some ''text/plain; charset=utf-8'', wroteHeader = Some 400,
     written = [Text (ID_invalido @ [CHR 0x0A])]\<rparr>,
    \<lparr>individuos = [(1, ''Ana'')], AUTO_INCREMENT = 2, failure = None\<rparr>) \<and>
   Status (fst (modificarPessoa mysql
     (request ''application/json'' ''1''
        (Inl ''json: cannot unmarshal number into Go struct field Pessoa.nome of type string''))
     fresh \<lparr>individuos = [(1, ''Ana'')], AUTO_INCREMENT = 2, failure = None\<rparr>)) = 400 \<and>
   Status (fst (modificarPessoa mysql
     (request ''application/json'' ''1'' (Inr \<lparr>ID = 0, Nome = ''Bia''\<rparr>))
     fresh unreachable)) = 500"
  by (simp add: modificarPessoa_def Let_def eval_defs mysql_defs writer_defs status_defs)

text \<open>
  Claim C4 as amended: an Update request whose Content-Type is exactly
  \<^verbatim>\<open>application/json\<close>, whose path id \<^verbatim>\<open>strconv.Atoi\<close> accepts (a decimal integer
  in the range of \<^verbatim>\<open>int\<close>) and whose body decodes into a \<^verbatim>\<open>Pessoa\<close>, and whose
  UPDATE statement reports the number \<open>n\<close> of affected rows, is answered with 404 when
  \<open>n\<close> is zero, and otherwise with 200 and the JSON of the \<^verbatim>\<open>Pessoa\<close> made of the
  path id and the new name.
\<close>

theorem modificarPessoa_rows_affected:
  assumes "Header_Content_Type r = ''application/json''"
    and "Atoi (index_map (Vars r) ''id'') = Some i"
    and "Body_Decode r = Inr p"
    and "Exec dbConn ''UPDATE individuos SET nome = ? WHERE id = ?'' [AString (Nome p), AInt i] s
           = (Inr resultado, s')"
    and "RowsAffected resultado = Inr n"
  shows "modificarPessoa dbConn r fresh s =
     (if n = 0
      then (\<lparr>Content_Type = Some ''text/plain; charset=utf-8'', wroteHeader = Some 404,
              written = [Text (nao_encontrada @ [CHR 0x0A])]\<rparr>, s')
      else (\<lparr>Content_Type = Some ''application/json'', wroteHeader = Some 200,
              written = [JsonLine (Marshal_Pessoa \<lparr>ID = i, Nome = Nome p\<rparr>)]\<rparr>, s'))"
  using assms
  by (simp add: modificarPessoa_def Let_def writer_defs status_defs Marshal_Pessoa_ID_update)

text \<open>Renaming id 7, which the table does not hold, and id 1, which it does.\<close>

theorem modificarPessoa_rows_affected_witness:
  "modificarPessoa mysql (request ''application/json'' ''7'' (Inr \<lparr>ID = 0, Nome = ''Bia''\<rparr>)) fresh
     \<lparr>individuos = [(1, ''Ana'')], AUTO_INCREMENT = 2, failure = None\<rparr> =
   (\<lparr>Content_Type = Some ''text/plain; charset=utf-8'', wroteHeader = Some 404,
     written = [Text (nao_encontrada @ [CHR 0x0A])]\<rparr>,
    \<lparr>individuos = [(1, ''Ana'')], AUTO_INCREMENT = 2, failure = None\<rparr>) \<and>
   modificarPessoa mysql (request ''application/json'' ''1'' (Inr \<lparr>ID = 0, Nome = ''Bia''\<rparr>)) fresh
     \<lparr>individuos = [(1, ''Ana'')], AUTO_INCREMENT = 2, failure = None\<rparr> =
   (\<lparr>Content_Type = Some ''application/json'', wroteHeader = Some 200,
     written = [JsonLine (Marshal_Pessoa \<lparr>ID = 1, Nome = ''Bia''\<rparr>)]\<rparr>,
    \<lparr>individuos = [(1, ''Bia'')], AUTO_INCREMENT = 2, failure = None\<rparr>)"
proof -
  let ?s = "\<lparr>individuos = [(1, ''Ana'')], AUTO_INCREMENT = 2, failure = None\<rparr>"
  let ?p = "\<lparr>ID = 0, Nome = ''Bia''\<rparr>"
  have ct: "Header_Content_Type (request ''application/json'' v (Inr ?p)) = ''application/json''"
    for v by (simp add: request_def)
  have b: "Body_Decode (request ''application/json'' v (Inr ?p)) = Inr ?p"
    for v by (simp add: request_def)
  have a7: "Atoi (index_map (Vars (request ''application/json'' ''7'' (Inr ?p))) ''id'') = Some 7"
    by (simp add: eval_defs)
  have a1: "Atoi (index_map (Vars (request ''application/json'' ''1'' (Inr ?p))) ''id'') = Some 1"
    by (simp add: eval_defs)
  have e7: "Exec mysql ''UPDATE individuos SET nome = ? WHERE id = ?'' [AString (Nome ?p), AInt 7] ?s
      = (Inr \<lparr>LastInsertId = Inr 0, RowsAffected = Inr 0\<rparr>, ?s)"
    by (simp add: mysql_defs)
  have e1: "Exec mysql ''UPDATE individuos SET nome = ? WHERE id = ?'' [AString (Nome ?p), AInt 1] ?s
      = (Inr \<lparr>LastInsertId = Inr 0, RowsAffected = Inr 1\<rparr>,
         \<lparr>individuos = [(1, ''Bia'')], AUTO_INCREMENT = 2, failure = None\<rparr>)"
    by (simp add: mysql_defs)
  have r0: "RowsAffected \<lparr>LastInsertId = Inr 0, RowsAffected = Inr 0\<rparr> = Inr 0" by simp
  have r1: "RowsAffected \<lparr>LastInsertId = Inr 0, RowsAffected = Inr 1\<rparr> = Inr 1" by simp
  show ?thesis
    using modificarPessoa_rows_affected [OF ct a7 b e7 r0]
      modificarPessoa_rows_affected [OF ct a1 b e1 r1]
    by simp
qed

text \<open>
  Claim C10: when an Update succeeds, the body of the response is the JSON of the path id
  and of the name of the request body. An id in the request body has no effect on what
  the handler does, and the handler never queries the storage: it behaves the same
  whatever \<open>Query\<close> and \<open>QueryRow\<close> would return.
\<close>

theorem modificarPessoa_response_from_request:
  "(Status (fst (modificarPessoa dbConn r fresh s)) = 200 \<longrightarrow>
      (\<exists>i p. Atoi (index_map (Vars r) ''id'') = Some i \<and> Body_Decode r = Inr p \<and>
         written (fst (modificarPessoa dbConn r fresh s)) =
           [JsonLine (Marshal_Pessoa \<lparr>ID = i, Nome = Nome p\<rparr>)])) \<and>
   modificarPessoa dbConn (r\<lparr>Body_Decode := Inr (q\<lparr>ID := j\<rparr>)\<rparr>) w s =
     modificarPessoa dbConn (r\<lparr>Body_Decode := Inr q\<rparr>) w s \<and>
   modificarPessoa (dbConn\<lparr>Query := query, QueryRow := queryRow\<rparr>) r w s =
     modificarPessoa dbConn r w s"
proof (intro conjI impI)
  assume "Status (fst (modificarPessoa dbConn r fresh s)) = 200"
  then show "\<exists>i p. Atoi (index_map (Vars r) ''id'') = Some i \<and> Body_Decode r = Inr p \<and>
         written (fst (modificarPessoa dbConn r fresh s)) =
           [JsonLine (Marshal_Pessoa \<lparr>ID = i, Nome = Nome p\<rparr>)]"
    by (auto simp: modificarPessoa_def Let_def writer_simps status_defs
          Marshal_Pessoa_ID_update
        split: prod.splits sum.splits option.splits if_splits)
next
  show "modificarPessoa dbConn (r\<lparr>Body_Decode := Inr (q\<lparr>ID := j\<rparr>)\<rparr>) w s =
     modificarPessoa dbConn (r\<lparr>Body_Decode := Inr q\<rparr>) w s"
    by (simp add: modificarPessoa_def Let_def Marshal_Pessoa_ID_update
        split: option.splits prod.splits sum.splits)
next
  show "modificarPessoa (dbConn\<lparr>Query := query, QueryRow := queryRow\<rparr>) r w s =
     modificarPessoa dbConn r w s"
    by (simp add: modificarPessoa_def Let_def split: option.splits sum.splits)
qed

text \<open>The body says id 99; the response and the table say id 1, the id of the path.\<close>

theorem modificarPessoa_response_from_request_witness:
  "Status (fst (modificarPessoa mysql
      (request ''application/json'' ''1'' (Inr \<lparr>ID = 99, Nome = ''Bia''\<rparr>)) fresh
      \<lparr>individuos = [(1, ''Ana'')], AUTO_INCREMENT = 2, failure = None\<rparr>)) = 200 \<and>
   written (fst (modificarPessoa mysql
      (request ''application/json'' ''1'' (Inr \<lparr>ID = 99, Nome = ''Bia''\<rparr>)) fresh
      \<lparr>individuos = [(1, ''Ana'')], AUTO_INCREMENT = 2, failure = None\<rparr>)) =
     [JsonLine (Marshal_Pessoa \<lparr>ID = 1, Nome = ''Bia''\<rparr>)]"
proof -
  let ?r = "request ''application/json'' ''1'' (Inr \<lparr>ID = 99, Nome = ''Bia''\<rparr>)"
  let ?s = "\<lparr>individuos = [(1, ''Ana'')], AUTO_INCREMENT = 2, failure = None\<rparr>"
  have st: "Status (fst (modificarPessoa mysql ?r fresh ?s)) = 200"
    by (simp add: modificarPessoa_def Let_def eval_defs mysql_defs writer_defs status_defs)
  have a: "Atoi (index_map (Vars ?r) ''id'') = Some 1"
    by (simp add: eval_defs)
  have b: "Body_Decode ?r = Inr \<lparr>ID = 99, Nome = ''Bia''\<rparr>"
    by (simp add: request_def)
  from modificarPessoa_response_from_request [of mysql ?r ?s] st
  obtain i p where "Atoi (index_map (Vars ?r) ''id'') = Some i" "Body_Decode ?r = Inr p"
    "written (fst (modificarPessoa mysql ?r fresh ?s)) =
       [JsonLine (Marshal_Pessoa \<lparr>ID = i, Nome = Nome p\<rparr>)]"
    by blast
  with a b have "written (fst (modificarPessoa mysql ?r fresh ?s)) =
       [JsonLine (Marshal_Pessoa \<lparr>ID = 1, Nome = ''Bia''\<rparr>)]"
    by auto
  with st show ?thesis by simp
qed

subsection \<open>The Content-Type of Create and Update\<close>

text \<open>
  Claim C6: a Create or Update request whose Content-Type is not \<^verbatim>\<open>application/json\<close>
  (so, in particular, every request whose Content-Type does not declare JSON) is answered
  with 415, whatever its body and its path id. The answer does not depend on the database
  handle and the storage is left as it was: the handler returns before any statement.
\<close>

theorem not_json_unsupported_media_type:
  "Header_Content_Type r \<noteq> ''application/json'' \<Longrightarrow>
   adicionarPessoa dbConn r fresh s =
     (\<lparr>Content_Type = Some ''text/plain; charset=utf-8'', wroteHeader = Some 415,
       written = [Text (''O Content-Type deve ser application/json'' @ [CHR 0x0A])]\<rparr>, s) \<and>
   modificarPessoa dbConn r fresh s =
     (\<lparr>Content_Type = Some ''text/plain; charset=utf-8'', wroteHeader = Some 415,
       written = [Text (''O Content-Type deve ser application/json'' @ [CHR 0x0A])]\<rparr>, s)"
  by (simp add: adicionarPessoa_def modificarPessoa_def Let_def writer_defs status_defs)

theorem not_json_unsupported_media_type_witness:
  "Header_Content_Type (request ''text/plain'' ''1'' (Inr \<lparr>ID = 0, Nome = ''Ana''\<rparr>))
     \<noteq> ''application/json'' \<and>
   Status (fst (adicionarPessoa mysql
     (request ''text/plain'' ''1'' (Inr \<lparr>ID = 0, Nome = ''Ana''\<rparr>)) fresh empty_table)) = 415 \<and>
   snd (adicionarPessoa mysql
     (request ''text/plain'' ''1'' (Inr \<lparr>ID = 0, Nome = ''Ana''\<rparr>)) fresh empty_table)
     = empty_table \<and>
   Status (fst (modificarPessoa mysql
     (request ''text/plain'' ''1'' (Inr \<lparr>ID = 0, Nome = ''Ana''\<rparr>)) fresh empty_table)) = 415 \<and>
   snd (modificarPessoa mysql
     (request ''text/plain'' ''1'' (Inr \<lparr>ID = 0, Nome = ''Ana''\<rparr>)) fresh empty_table)
     = empty_table"
proof -
  have h: "Header_Content_Type (request ''text/plain'' ''1'' (Inr \<lparr>ID = 0, Nome = ''Ana''\<rparr>))
             \<noteq> ''application/json''"
    by (simp add: request_def)
  show ?thesis
    using h not_json_unsupported_media_type [OF h, of mysql empty_table]
    by (simp add: Status_def)
qed

lemma Status_adicionarPessoa_json:
  "Header_Content_Type r = ''application/json'' \<Longrightarrow>
   Status (fst (adicionarPessoa dbConn r fresh s)) \<in> {200, 400, 500}"
  by (auto simp: adicionarPessoa_def Let_def writer_simps status_defs
           split: prod.splits sum.splits)

lemma Status_modificarPessoa_json:
  "Header_Content_Type r = ''application/json'' \<Longrightarrow>
   Status (fst (modificarPessoa dbConn r fresh s)) \<in> {200, 400, 404, 500}"
  by (auto simp: modificarPessoa_def Let_def writer_simps status_defs
           split: prod.splits sum.splits option.splits)

lemma Status_adicionarPessoa_not_json:
  "Header_Content_Type r \<noteq> ''application/json'' \<Longrightarrow>
   Status (fst (adicionarPessoa dbConn r fresh s)) = 415"
  by (simp add: adicionarPessoa_def Let_def writer_simps status_defs)

lemma Status_modificarPessoa_not_json:
  "Header_Content_Type r \<noteq> ''application/json'' \<Longrightarrow>
   Status (fst (modificarPessoa dbConn r fresh s)) = 415"
  by (simp add: modificarPessoa_def Let_def writer_simps status_defs)

text \<open>
  Claim C9: \<^verbatim>\<open>adicionarPessoa\<close> and \<^verbatim>\<open>modificarPessoa\<close> answer 415 exactly when the
  Content-Type is not the string \<^verbatim>\<open>application/json\<close>. So a header that declares JSON
  in other words, such as \<^verbatim>\<open>application/json; charset=utf-8\<close>, is rejected with 415
  although the body is valid JSON, as the run after the theorem shows.
\<close>

theorem exactly_application_json:
  "(Status (fst (adicionarPessoa dbConn r fresh s)) = 415) =
     (Header_Content_Type r \<noteq> ''application/json'') \<and>
   (Status (fst (modificarPessoa dbConn r fresh s)) = 415) =
     (Header_Content_Type r \<noteq> ''application/json'')"
proof (cases "Header_Content_Type r = ''application/json''")
  case True
  with Status_adicionarPessoa_json [OF True, of dbConn s]
    Status_modificarPessoa_json [OF True, of dbConn s]
  show ?thesis by auto
next
  case False
  with Status_adicionarPessoa_not_json [OF False, of dbConn s]
    Status_modificarPessoa_not_json [OF False, of dbConn s]
  show ?thesis by simp
qed

theorem exactly_application_json_witness:
  "Body_Decode (request ''application/json; charset=utf-8'' ''1'' (Inr \<lparr>ID = 0, Nome = ''Ana''\<rparr>))
     = Inr \<lparr>ID = 0, Nome = ''Ana''\<rparr> \<and>
   Status (fst (adicionarPessoa mysql
     (request ''application/json; charset=utf-8'' ''1'' (Inr \<lparr>ID = 0, Nome = ''Ana''\<rparr>))
     fresh empty_table)) = 415 \<and>
   Status (fst (modificarPessoa mysql
     (request ''application/json; charset=utf-8'' ''1'' (Inr \<lparr>ID = 0, Nome = ''Ana''\<rparr>))
     fresh empty_table)) = 415 \<and>
   Status (fst (adicionarPessoa mysql
     (request ''application/json'' ''1'' (Inr \<lparr>ID = 0, Nome = ''Ana''\<rparr>))
     fresh empty_table)) \<noteq> 415"
  using exactly_application_json [of mysql
      "request ''application/json; charset=utf-8'' ''1'' (Inr \<lparr>ID = 0, Nome = ''Ana''\<rparr>)" empty_table]
    exactly_application_json [of mysql
      "request ''application/json'' ''1'' (Inr \<lparr>ID = 0, Nome = ''Ana''\<rparr>)" empty_table]
  by (simp add: request_def)

subsection \<open>The path id\<close>






subsection \<open>The name\<close>

text \<open>
  Claim C8 says that no successful Create or Update stores an empty name. Neither handler
  looks at the name: a body without the field \<^verbatim>\<open>nome\<close>, or with an empty one, decodes
  to the empty string, which the NOT NULL column accepts. Create then answers 200 and
  inserts a row with the empty name, and Update answers 200 and empties the name of
  the row.
\<close>

theorem name_required_counterexample:
  "adicionarPessoa mysql (request ''application/json'' [] (Inr \<lparr>ID = 0, Nome = []\<rparr>))
     fresh empty_table =
   (\<lparr>Content_Type = Some ''application/json'', wroteHeader = Some 200,
     written = [JsonLine (Marshal_Pessoa \<lparr>ID = 1, Nome = []\<rparr>)]\<rparr>,
    \<lparr>individuos = [(1, [])], AUTO_INCREMENT = 2, failure = None\<rparr>) \<and>
   modificarPessoa mysql (request ''application/json'' ''1'' (Inr \<lparr>ID = 0, Nome = []\<rparr>)) fresh
     \<lparr>individuos = [(1, ''Ana'')], AUTO_INCREMENT = 2, failure = None\<rparr> =
   (\<lparr>Content_Type = Some ''application/json'', wroteHeader = Some 200,
     written = [JsonLine (Marshal_Pessoa \<lparr>ID = 1, Nome = []\<rparr>)]\<rparr>,
    \<lparr>individuos = [(1, [])], AUTO_INCREMENT = 2, failure = None\<rparr>)"
  by (simp add: adicionarPessoa_def modificarPessoa_def Let_def eval_defs mysql_defs
      writer_defs status_defs)

lemma changed_rows_pos:
  "(i, old) \<in> set rows \<Longrightarrow> old \<noteq> n \<Longrightarrow>
   length (filter (\<lambda>row. fst row = i \<and> snd row \<noteq> n) rows) \<noteq> 0"
  by (force simp: filter_empty_conv)

text \<open>
  Claim C8 as amended: Create and Update do not check the name. For a request with
  Content-Type \<^verbatim>\<open>application/json\<close> whose body decodes, on a storage that can be
  reached, every name of at most 255 characters, the empty name included, is stored as it
  is: Create, when the id counter is within the range of INT (at most 2147483647),
  answers 200 and appends a row with the next id and that name; Update, when the path id
  is an integer and a row with that id holds another name, answers 200 and gives that
  name to every row with that id.
\<close>

theorem name_stored_as_decoded:
  assumes "failure s = None"
    and "utf8_length (Nome p) \<le> 255"
    and "Header_Content_Type r = ''application/json''"
    and "Body_Decode r = Inr p"
  shows "(AUTO_INCREMENT s \<le> 2147483647 \<longrightarrow>
           adicionarPessoa mysql r fresh s =
             (\<lparr>Content_Type = Some ''application/json'', wroteHeader = Some 200,
               written = [JsonLine (Marshal_Pessoa \<lparr>ID = AUTO_INCREMENT s, Nome = Nome p\<rparr>)]\<rparr>,
              s\<lparr>individuos := individuos s @ [(AUTO_INCREMENT s, Nome p)],
                AUTO_INCREMENT := AUTO_INCREMENT s + 1\<rparr>)) \<and>
         (Atoi (index_map (Vars r) ''id'') = Some i \<and> (i, old) \<in> set (individuos s) \<and>
          old \<noteq> Nome p \<longrightarrow>
           modificarPessoa mysql r fresh s =
             (\<lparr>Content_Type = Some ''application/json'', wroteHeader = Some 200,
               written = [JsonLine (Marshal_Pessoa \<lparr>ID = i, Nome = Nome p\<rparr>)]\<rparr>,
              s\<lparr>individuos :=
                  map (\<lambda>row. if fst row = i then (fst row, Nome p) else row) (individuos s)\<rparr>))"
proof (intro conjI impI)
  assume "AUTO_INCREMENT s \<le> 2147483647"
  with assms show "adicionarPessoa mysql r fresh s =
             (\<lparr>Content_Type = Some ''application/json'', wroteHeader = Some 200,
               written = [JsonLine (Marshal_Pessoa \<lparr>ID = AUTO_INCREMENT s, Nome = Nome p\<rparr>)]\<rparr>,
              s\<lparr>individuos := individuos s @ [(AUTO_INCREMENT s, Nome p)],
                AUTO_INCREMENT := AUTO_INCREMENT s + 1\<rparr>)"
    by (simp add: adicionarPessoa_def Let_def mysql_def mysql_Exec_def insert_row_def
        column_value_fits writer_defs Marshal_Pessoa_ID_update)
next
  assume h: "Atoi (index_map (Vars r) ''id'') = Some i \<and> (i, old) \<in> set (individuos s) \<and>
          old \<noteq> Nome p"
  then have "length (filter (\<lambda>row. fst row = i \<and> snd row \<noteq> Nome p) (individuos s)) \<noteq> 0"
    using changed_rows_pos [of i old "individuos s" "Nome p"] by simp
  moreover from h have "list_ex (\<lambda>row. fst row = i) (individuos s)"
    by (force simp: list_ex_iff)
  ultimately show "modificarPessoa mysql r fresh s =
             (\<lparr>Content_Type = Some ''application/json'', wroteHeader = Some 200,
               written = [JsonLine (Marshal_Pessoa \<lparr>ID = i, Nome = Nome p\<rparr>)]\<rparr>,
              s\<lparr>individuos :=
                  map (\<lambda>row. if fst row = i then (fst row, Nome p) else row) (individuos s)\<rparr>)"
    using assms h
    by (simp add: modificarPessoa_def Let_def mysql_def mysql_Exec_def update_rows_def
        column_value_fits writer_defs status_defs Marshal_Pessoa_ID_update)
qed

theorem name_stored_as_decoded_witness:
  "failure empty_table = None \<and> utf8_length (Nome \<lparr>ID = 0, Nome = []\<rparr>) \<le> 255 \<and>
   AUTO_INCREMENT empty_table \<le> 2147483647 \<and>
   adicionarPessoa mysql (request ''application/json'' ''1'' (Inr \<lparr>ID = 0, Nome = []\<rparr>))
     fresh empty_table =
   (\<lparr>Content_Type = Some ''application/json'', wroteHeader = Some 200,
     written = [JsonLine (Marshal_Pessoa \<lparr>ID = 1, Nome = []\<rparr>)]\<rparr>,
    \<lparr>individuos = [(1, [])], AUTO_INCREMENT = 2, failure = None\<rparr>) \<and>
   modificarPessoa mysql (request ''application/json'' ''1'' (Inr \<lparr>ID = 0, Nome = []\<rparr>))
     fresh \<lparr>individuos = [(1, ''Ana'')], AUTO_INCREMENT = 2, failure = None\<rparr> =
   (\<lparr>Content_Type = Some ''application/json'', wroteHeader = Some 200,
     written = [JsonLine (Marshal_Pessoa \<lparr>ID = 1, Nome = []\<rparr>)]\<rparr>,
    \<lparr>individuos = [(1, [])], AUTO_INCREMENT = 2, failure = None\<rparr>)"
proof -
  let ?p = "\<lparr>ID = 0, Nome = []\<rparr>"
  let ?r = "request ''application/json'' ''1'' (Inr ?p)"
  let ?s = "\<lparr>individuos = [(1, ''Ana'')], AUTO_INCREMENT = 2, failure = None\<rparr>"
  have f: "failure empty_table = None" by (simp add: empty_table_def)
  have f': "failure ?s = None" by simp
  have l: "utf8_length (Nome ?p) \<le> 255" by (simp add: utf8_length_Nil)
  have ct: "Header_Content_Type ?r = ''application/json''" by (simp add: request_def)
  have b: "Body_Decode ?r = Inr ?p" by (simp add: request_def)
  have a: "AUTO_INCREMENT empty_table \<le> 2147483647" by (simp add: empty_table_def)
  have i: "Atoi (index_map (Vars ?r) ''id'') = Some 1" by (simp add: eval_defs)
  show ?thesis
    using f a i name_stored_as_decoded [OF f l ct b, of 1 "''Ana''"]
      name_stored_as_decoded [OF f' l ct b, of 1 "''Ana''"]
    by (simp add: empty_table_def utf8_length_Nil)
qed

end
